theory Spec2Isabelle
  imports
    Main
    "HOL-Library.Char_ord"
    "HOL-Library.List_Lexorder"
    "HOL-Library.Sublist"
    "HOL-Library.Word"
begin

section \<open>Python values and exceptions\<close>

text \<open>
  The program is \<^verbatim>\<open>src/python/promcurl.py\<close>; \<^verbatim>\<open>src/promcurl.py\<close> is the same code with
  French comments, prompt and column labels. It works on what \<^verbatim>\<open>response.json()\<close>
  returns: dynamically typed Python values decoded from JSON. A JSON \<^verbatim>\<open>null\<close> is Python's
  \<^verbatim>\<open>None\<close>, an object is a \<^verbatim>\<open>dict\<close> with string keys, a number is an \<^verbatim>\<open>int\<close> or a
  \<^verbatim>\<open>float\<close> (an IEEE double, kept as its 64 bits: the program never computes with it).
  A dict is an association list read with \<^const>\<open>map_of\<close>; its key set is the set of
  first components. A string is the list of its characters, which are the 8-bit
  characters of HOL: code points below 256, ordered by their code.
\<close>

datatype json =
    JNull
  | JBool bool
  | JInt int
  | JFloat "64 word"
  | JStr string
  | JArr "json list"
  | JObj "(string \<times> json) list"

text \<open>The exceptions the program can raise; none of them is caught anywhere.\<close>

datatype py_error =
    KeyError
  | IndexError
  | TypeError
  | ValueError
  | AttributeError
  | JSONDecodeError
  | ConnectionError
  | EOFError

text \<open>Sequencing: the first exception ends the computation.\<close>

definition py_bind :: "py_error + 'a \<Rightarrow> ('a \<Rightarrow> py_error + 'b) \<Rightarrow> py_error + 'b" where
  "py_bind m f = (case m of Inl e \<Rightarrow> Inl e | Inr x \<Rightarrow> f x)"

text \<open>A list comprehension \<^verbatim>\<open>[f(x) for x in xs]\<close> whose body may raise.\<close>

fun map_res :: "('a \<Rightarrow> py_error + 'b) \<Rightarrow> 'a list \<Rightarrow> py_error + 'b list" where
  "map_res f [] = Inr []"
| "map_res f (x # xs) =
     (case f x of
        Inl e \<Rightarrow> Inl e
      | Inr y \<Rightarrow> (case map_res f xs of Inl e \<Rightarrow> Inl e | Inr ys \<Rightarrow> Inr (y # ys)))"

text \<open>A list comprehension \<^verbatim>\<open>[x for x in xs if p(x)]\<close> whose condition may raise.\<close>

fun filter_res :: "('a \<Rightarrow> py_error + bool) \<Rightarrow> 'a list \<Rightarrow> py_error + 'a list" where
  "filter_res p [] = Inr []"
| "filter_res p (x # xs) =
     (case p x of
        Inl e \<Rightarrow> Inl e
      | Inr b \<Rightarrow>
          (case filter_res p xs of
             Inl e \<Rightarrow> Inl e
           | Inr ys \<Rightarrow> Inr (if b then x # ys else ys)))"

text \<open>\<^verbatim>\<open>xs[i]\<close> on a sequence: a negative index counts from the end, an index out of
  range raises \<^verbatim>\<open>IndexError\<close>.\<close>

definition py_index :: "'a list \<Rightarrow> int \<Rightarrow> py_error + 'a" where
  "py_index xs i =
     (if 0 \<le> i \<and> i < int (length xs) then Inr (xs ! nat i)
      else if i < 0 \<and> - int (length xs) \<le> i then Inr (xs ! nat (int (length xs) + i))
      else Inl IndexError)"

text \<open>\<^verbatim>\<open>xs[i:j]\<close>: both bounds are clamped to the list, a negative bound counts from
  the end.\<close>

definition py_slice :: "'a list \<Rightarrow> int \<Rightarrow> int \<Rightarrow> 'a list" where
  "py_slice xs i j =
     (let n = int (length xs);
          clamp = (\<lambda>k. if k < 0 then max 0 (n + k) else min n k)
      in drop (nat (clamp i)) (take (nat (clamp j)) xs))"

text \<open>\<^verbatim>\<open>obj[key]\<close> with a string key: a dict looks the key up, every other JSON value
  refuses a string subscript.\<close>

definition getitem_str :: "json \<Rightarrow> string \<Rightarrow> py_error + json" where
  "getitem_str obj key =
     (case obj of
        JObj kvs \<Rightarrow> (case map_of kvs key of None \<Rightarrow> Inl KeyError | Some v \<Rightarrow> Inr v)
      | _ \<Rightarrow> Inl TypeError)"

text \<open>\<^verbatim>\<open>obj[i]\<close> with an integer: a list and a string are indexed, a dict decoded from
  JSON has no integer key, the other values are not subscriptable.\<close>

definition getitem_int :: "json \<Rightarrow> int \<Rightarrow> py_error + json" where
  "getitem_int obj i =
     (case obj of
        JArr xs \<Rightarrow> py_index xs i
      | JStr s \<Rightarrow> py_bind (py_index s i) (\<lambda>c. Inr (JStr [c]))
      | JObj kvs \<Rightarrow> Inl KeyError
      | _ \<Rightarrow> Inl TypeError)"

text \<open>\<^verbatim>\<open>for x in obj\<close>: a list gives its elements, a string its characters, a dict its
  keys; the other values are not iterable.\<close>

definition py_iter :: "json \<Rightarrow> py_error + json list" where
  "py_iter obj =
     (case obj of
        JArr xs \<Rightarrow> Inr xs
      | JStr s \<Rightarrow> Inr (map (\<lambda>c. JStr [c]) s)
      | JObj kvs \<Rightarrow> Inr (map (\<lambda>kv. JStr (fst kv)) kvs)
      | _ \<Rightarrow> Inl TypeError)"

text \<open>The methods \<^verbatim>\<open>dict.keys()\<close>, \<^verbatim>\<open>dict.get(key, default)\<close> and
  \<^verbatim>\<open>str.startswith(text)\<close>; a value of another type has no such attribute.\<close>

definition py_keys :: "json \<Rightarrow> py_error + string list" where
  "py_keys obj = (case obj of JObj kvs \<Rightarrow> Inr (map fst kvs) | _ \<Rightarrow> Inl AttributeError)"

definition dict_get :: "json \<Rightarrow> string \<Rightarrow> json \<Rightarrow> py_error + json" where
  "dict_get obj key dflt =
     (case obj of
        JObj kvs \<Rightarrow> Inr (case map_of kvs key of None \<Rightarrow> dflt | Some v \<Rightarrow> v)
      | _ \<Rightarrow> Inl AttributeError)"

definition startswith :: "json \<Rightarrow> string \<Rightarrow> py_error + bool" where
  "startswith obj text = (case obj of JStr s \<Rightarrow> Inr (prefix text s) | _ \<Rightarrow> Inl AttributeError)"

text \<open>\<^verbatim>\<open>xs.remove(x)\<close> deletes the first occurrence and raises \<^verbatim>\<open>ValueError\<close> when
  there is none.\<close>

definition list_remove :: "'a \<Rightarrow> 'a list \<Rightarrow> py_error + 'a list" where
  "list_remove x xs = (if x \<in> set xs then Inr (remove1 x xs) else Inl ValueError)"

section \<open>The API client\<close>

text \<open>
  \<^verbatim>\<open>requests.get\<close> is the network: a function from the URL and the query parameters to
  a raised transport error or a response. \<^verbatim>\<open>response.json()\<close> raises when the body is
  not valid JSON (\<open>body_json = None\<close>). The status code is part of the response; the
  program never reads it.
\<close>

record response =
  status_code :: nat
  body_json :: "json option"

type_synonym http = "string \<Rightarrow> (string \<times> string) list \<Rightarrow> py_error + response"

definition response_json :: "response \<Rightarrow> py_error + json" where
  "response_json r = (case body_json r of None \<Rightarrow> Inl JSONDecodeError | Some j \<Rightarrow> Inr j)"

definition prometheus_url :: string where
  "prometheus_url = ''http://localhost:9090/api/v1''"

definition get_metrics :: "http \<Rightarrow> py_error + json" where
  "get_metrics requests_get =
     py_bind (requests_get (prometheus_url @ ''/label/__name__/values'') []) (\<lambda>response.
     py_bind (response_json response) (\<lambda>data.
     getitem_str data ''data''))"

definition query_prometheus :: "http \<Rightarrow> string \<Rightarrow> py_error + json" where
  "query_prometheus requests_get query =
     py_bind (requests_get (prometheus_url @ ''/query'') [(''query'', query)]) (\<lambda>response.
     py_bind (response_json response) (\<lambda>data.
     py_bind (getitem_str data ''data'') (\<lambda>d.
     getitem_str d ''result'')))"

section \<open>The table renderer\<close>

text \<open>
  \<^verbatim>\<open>display_table\<close> builds the header list and the rows and hands both to
  \<^verbatim>\<open>tabulate\<close>, a library outside the program. The model returns what is handed over:
  the headers and the table of cells, or the exception raised before. The text that
  \<^verbatim>\<open>tabulate\<close> makes of a cell is not part of the model: the call uses the library's
  defaults, under which a cell that reads as a number is printed in the library's number
  format and not as the string received.
\<close>

type_synonym table = "string list \<times> json list list"

text \<open>\<^verbatim>\<open>[result['metric'].keys() for result in results]\<close>\<close>

definition label_keys :: "json \<Rightarrow> py_error + string list list" where
  "label_keys results =
     py_bind (py_iter results)
       (map_res (\<lambda>result. py_bind (getitem_str result ''metric'') py_keys))"

text \<open>\<^verbatim>\<open>sorted(set().union(*keys))\<close>: strings are ordered character by character, by
  code point.\<close>

definition sorted_union :: "string list list \<Rightarrow> string list" where
  "sorted_union keys = sort (remdups (concat keys))"

text \<open>The body of the loop over the results: the cells of the label columns, then the
  sample value appended, then the metric name inserted in front.\<close>

definition build_row :: "string list \<Rightarrow> json \<Rightarrow> py_error + json list" where
  "build_row labels result =
     py_bind (map_res (\<lambda>label.
                py_bind (getitem_str result ''metric'') (\<lambda>m. dict_get m label (JStr '''')))
              labels) (\<lambda>row.
     py_bind (py_bind (getitem_str result ''value'') (\<lambda>v. getitem_int v 1)) (\<lambda>val.
     py_bind (py_bind (getitem_str result ''metric'') (\<lambda>m. getitem_str m ''__name__''))
       (\<lambda>name.
     Inr (name # (row @ [val])))))"

definition display_table :: "json \<Rightarrow> py_error + table" where
  "display_table results =
     py_bind (label_keys results) (\<lambda>keys.
     py_bind (list_remove ''__name__'' ([''Metric''] @ sorted_union keys)) (\<lambda>hs.
     let headers = hs @ [''Value''] in
     py_bind (py_bind (py_iter results) (map_res (build_row (py_slice headers 1 (- 1)))))
       (\<lambda>rows.
     Inr (headers, rows))))"

section \<open>The completion provider\<close>

text \<open>\<^verbatim>\<open>lambda text, state: [metric for metric in metrics if metric.startswith(text)][state]\<close>\<close>

definition completer :: "json \<Rightarrow> string \<Rightarrow> int \<Rightarrow> py_error + json" where
  "completer metrics text state =
     py_bind (py_bind (py_iter metrics) (filter_res (\<lambda>metric. startswith metric text)))
       (\<lambda>matches. py_index matches state)"

section \<open>The driver\<close>






section \<open>Well-formed inputs\<close>

text \<open>
  The shapes the server sends: the metric names as an array of strings, and a result
  record \<^verbatim>\<open>{"metric": {label: string, ...}, "value": [timestamp, string]}\<close>.
\<close>

definition metric_list :: "string list \<Rightarrow> json" where
  "metric_list names = JArr (map JStr names)"

definition labels_obj :: "(string \<times> string) list \<Rightarrow> json" where
  "labels_obj labels = JObj (map (\<lambda>kv. (fst kv, JStr (snd kv))) labels)"

definition result_record :: "(string \<times> string) list \<times> json \<times> string \<Rightarrow> json" where
  "result_record r =
     (case r of (labels, ts, v) \<Rightarrow>
        JObj [(''metric'', labels_obj labels), (''value'', JArr [ts, JStr v])])"

definition result_set :: "((string \<times> string) list \<times> json \<times> string) list \<Rightarrow> json" where
  "result_set rs = JArr (map result_record rs)"

section \<open>Sequencing and comprehensions\<close>

lemma py_bind_Inl [simp]: "py_bind (Inl e) f = Inl e"
  by (simp add: py_bind_def)

lemma py_bind_Inr [simp]: "py_bind (Inr x) f = f x"
  by (simp add: py_bind_def)

lemma map_res_all_Inr:
  "(\<And>x. x \<in> set xs \<Longrightarrow> f x = Inr (g x)) \<Longrightarrow> map_res f xs = Inr (map g xs)"
  by (induction xs) simp_all

lemma map_res_some_Inl:
  assumes "\<forall>x\<in>set xs. f x = Inr (g x) \<or> f x = Inl e"
    and "\<exists>x\<in>set xs. f x = Inl e"
  shows "map_res f xs = Inl e"
  using assms
proof (induction xs)
  case Nil
  then show ?case by simp
next
  case (Cons x xs)
  show ?case
  proof (cases "f x")
    case (Inl e')
    with Cons.prems(1) show ?thesis by auto
  next
    case (Inr y)
    with Cons.prems have "\<exists>x\<in>set xs. f x = Inl e" by auto
    with Cons.IH Cons.prems(1) have "map_res f xs = Inl e" by simp
    with Inr show ?thesis by simp
  qed
qed

lemma map_of_labels:
  "map_of (map (\<lambda>kv. (fst kv, JStr (snd kv))) ls) k = map_option JStr (map_of ls k)"
  by (induction ls) auto

lemma getitem_metric [simp]:
  "getitem_str (result_record (ls, ts, v)) ''metric'' = Inr (labels_obj ls)"
  by (simp add: getitem_str_def result_record_def)

lemma getitem_value [simp]:
  "getitem_str (result_record (ls, ts, v)) ''value'' = Inr (JArr [ts, JStr v])"
  by (simp add: getitem_str_def result_record_def)

lemma getitem_int_pair [simp]: "getitem_int (JArr [ts, x]) 1 = Inr x"
  by (simp add: getitem_int_def py_index_def)

lemma py_keys_labels [simp]: "py_keys (labels_obj ls) = Inr (map fst ls)"
  by (simp add: py_keys_def labels_obj_def comp_def)

lemma dict_get_labels [simp]:
  "dict_get (labels_obj ls) k (JStr d) =
     Inr (JStr (case map_of ls k of None \<Rightarrow> d | Some x \<Rightarrow> x))"
  by (simp add: dict_get_def labels_obj_def map_of_labels split: option.split)

lemma getitem_name [simp]:
  "getitem_str (labels_obj ls) k =
     (case map_of ls k of None \<Rightarrow> Inl KeyError | Some x \<Rightarrow> Inr (JStr x))"
  by (simp add: getitem_str_def labels_obj_def map_of_labels split: option.split)

lemma build_row_record:
  "build_row labels (result_record (ls, ts, v)) =
     (case map_of ls ''__name__'' of
        None \<Rightarrow> Inl KeyError
      | Some n \<Rightarrow>
          Inr (JStr n #
               map (\<lambda>k. JStr (case map_of ls k of None \<Rightarrow> '''' | Some x \<Rightarrow> x)) labels @
               [JStr v]))"
proof -
  have "map_res (\<lambda>label. py_bind (getitem_str (result_record (ls, ts, v)) ''metric'')
            (\<lambda>m. dict_get m label (JStr ''''))) labels =
        Inr (map (\<lambda>k. JStr (case map_of ls k of None \<Rightarrow> '''' | Some x \<Rightarrow> x)) labels)"
    by (rule map_res_all_Inr) simp
  then show ?thesis
    by (simp add: build_row_def split: option.split)
qed


lemma map_res_map: "map_res f (map h xs) = map_res (\<lambda>x. f (h x)) xs"
  by (induction xs) (simp_all split: sum.split)


lemma label_keys_result_set:
  "label_keys (result_set rs) = Inr (map (\<lambda>r. map fst (fst r)) rs)"
proof -
  have "map_res (\<lambda>r. py_bind (getitem_str (result_record r) ''metric'') py_keys) rs
        = Inr (map (\<lambda>r. map fst (fst r)) rs)"
    by (rule map_res_all_Inr) (auto simp: split_paired_all)
  then show ?thesis
    by (simp add: label_keys_def result_set_def py_iter_def map_res_map)
qed

lemma py_slice_inner: "py_slice (a # xs @ [b]) 1 (- 1) = xs"
proof -
  have "nat (1 + int (length xs)) = Suc (length xs)" by simp
  then show ?thesis by (simp add: py_slice_def Let_def)
qed

lemma set_sorted_union: "set (sorted_union kss) = (\<Union>ks\<in>set kss. set ks)"
  by (simp add: sorted_union_def)

lemma sorted_union_eq: "sorted_union kss = sorted_list_of_set (\<Union>ks\<in>set kss. set ks)"
proof -
  have "sorted_list_of_set (set (concat kss)) = sort (remdups (concat kss))"
    by (rule sorted_list_of_set_sort_remdups)
  then show ?thesis by (simp add: sorted_union_def)
qed

lemma remove1_sorted_union:
  "remove1 x (sorted_union kss) = sorted_list_of_set ((\<Union>ks\<in>set kss. set ks) - {x})"
proof -
  have "finite (\<Union>ks\<in>set kss. set ks)" by simp
  then show ?thesis
    by (simp only: sorted_union_eq sorted_list_of_set_remove)
qed

section \<open>The renderer on well-formed result sets\<close>

lemma build_row_cases:
  "build_row labels (result_record r) =
     (if map_of (fst r) ''__name__'' = None then Inl KeyError
      else Inr (JStr (the (map_of (fst r) ''__name__'')) #
                map (\<lambda>k. JStr (case map_of (fst r) k of None \<Rightarrow> '''' | Some x \<Rightarrow> x)) labels @
                [JStr (snd (snd r))]))"
  by (cases r) (auto simp: build_row_record split: option.split)

lemma rows_result_set:
  "py_bind (py_iter (result_set rs)) (map_res (build_row labels)) =
     (if \<exists>r\<in>set rs. map_of (fst r) ''__name__'' = None then Inl KeyError
      else Inr (map (\<lambda>r. JStr (the (map_of (fst r) ''__name__'')) #
                map (\<lambda>k. JStr (case map_of (fst r) k of None \<Rightarrow> '''' | Some x \<Rightarrow> x)) labels @
                [JStr (snd (snd r))]) rs))"
  (is "?lhs = (if ?bad then _ else Inr (map ?row rs))")
proof -
  have lhs: "?lhs = map_res (\<lambda>r. build_row labels (result_record r)) rs"
    by (simp add: result_set_def py_iter_def map_res_map)
  show ?thesis
  proof (cases ?bad)
    case True
    have "map_res (\<lambda>r. build_row labels (result_record r)) rs = Inl KeyError"
    proof (rule map_res_some_Inl)
      show "\<forall>r\<in>set rs. build_row labels (result_record r) = Inr (?row r) \<or>
              build_row labels (result_record r) = Inl KeyError"
        by (simp add: build_row_cases)
      show "\<exists>r\<in>set rs. build_row labels (result_record r) = Inl KeyError"
        using True by (auto simp: build_row_cases)
    qed
    with lhs True show ?thesis by simp
  next
    case False
    have "map_res (\<lambda>r. build_row labels (result_record r)) rs = Inr (map ?row rs)"
      by (rule map_res_all_Inr) (use False in \<open>auto simp: build_row_cases\<close>)
    with lhs False show ?thesis by simp
  qed
qed

lemma headers_result_set:
  "py_bind (label_keys (result_set rs))
     (\<lambda>keys. list_remove ''__name__'' ([''Metric''] @ sorted_union keys)) =
     (if ''__name__'' \<in> (\<Union>r\<in>set rs. fst ` set (fst r))
      then Inr (''Metric'' #
                sorted_list_of_set ((\<Union>r\<in>set rs. fst ` set (fst r)) - {''__name__''}))
      else Inl ValueError)"
proof -
  define kss where "kss = map (\<lambda>r. map fst (fst r)) rs"
  have keys: "(\<Union>ks\<in>set kss. set ks) = (\<Union>r\<in>set rs. fst ` set (fst r))"
    by (simp add: kss_def)
  have "list_remove ''__name__'' ([''Metric''] @ sorted_union kss) =
      (if ''__name__'' \<in> (\<Union>ks\<in>set kss. set ks)
       then Inr (''Metric'' # sorted_list_of_set ((\<Union>ks\<in>set kss. set ks) - {''__name__''}))
       else Inl ValueError)"
    by (simp add: list_remove_def set_sorted_union remove1_sorted_union del: set_map)
  then show ?thesis
    by (simp add: label_keys_result_set keys flip: kss_def)
qed

lemma display_table_result_set:
  "display_table (result_set rs) =
     (if ''__name__'' \<notin> (\<Union>r\<in>set rs. fst ` set (fst r)) then Inl ValueError
      else if \<exists>r\<in>set rs. map_of (fst r) ''__name__'' = None then Inl KeyError
      else Inr (''Metric'' #
                sorted_list_of_set ((\<Union>r\<in>set rs. fst ` set (fst r)) - {''__name__''}) @
                [''Value''],
                map (\<lambda>r. JStr (the (map_of (fst r) ''__name__'')) #
                  map (\<lambda>k. JStr (case map_of (fst r) k of None \<Rightarrow> '''' | Some x \<Rightarrow> x))
                    (sorted_list_of_set ((\<Union>r\<in>set rs. fst ` set (fst r)) - {''__name__''})) @
                  [JStr (snd (snd r))]) rs))"
proof -
  have unfold: "display_table (result_set rs) =
      py_bind (py_bind (label_keys (result_set rs))
                 (\<lambda>keys. list_remove ''__name__'' ([''Metric''] @ sorted_union keys)))
        (\<lambda>hs. py_bind (py_bind (py_iter (result_set rs))
                  (map_res (build_row (py_slice (hs @ [''Value'']) 1 (- 1)))))
          (\<lambda>rows. Inr (hs @ [''Value''], rows)))"
    by (simp add: display_table_def py_bind_def Let_def split: sum.split)
  show ?thesis
  proof (cases "''__name__'' \<in> (\<Union>r\<in>set rs. fst ` set (fst r))")
    case False
    then show ?thesis
      by (simp only: unfold headers_result_set if_False if_True py_bind_Inl not_False_eq_True)
  next
    case True
    define cols where
      "cols = sorted_list_of_set ((\<Union>r\<in>set rs. fst ` set (fst r)) - {''__name__''})"
    have hdr: "py_bind (label_keys (result_set rs))
        (\<lambda>keys. list_remove ''__name__'' ([''Metric''] @ sorted_union keys)) =
        Inr (''Metric'' # cols)"
      using True by (simp only: headers_result_set cols_def if_True)
    have "display_table (result_set rs) =
        py_bind (py_bind (py_iter (result_set rs))
                  (map_res (build_row (py_slice ((''Metric'' # cols) @ [''Value'']) 1 (- 1)))))
          (\<lambda>rows. Inr ((''Metric'' # cols) @ [''Value''], rows))"
      by (simp only: unfold hdr py_bind_Inr)
    also have "py_slice ((''Metric'' # cols) @ [''Value'']) 1 (- 1) = cols"
      by (simp add: py_slice_inner)
    finally show ?thesis
      using True by (simp add: rows_result_set cols_def)
  qed
qed

text \<open>
  The rows that reach \<^verbatim>\<open>tabulate\<close> for a non-empty result set whose records all have the
  key \<^verbatim>\<open>__name__\<close>: one per record, in the order of the records, holding the metric
  name, then the record's value for each label column or the empty string, then the
  second element of the value pair. This is the argument of the call on the last line of
  \<^verbatim>\<open>display_table\<close>, not the text printed: \<^verbatim>\<open>tabulate\<close> is called with its defaults and
  formats the cells itself.
\<close>

lemma rows_handed_to_tabulate:
  assumes "rs \<noteq> []"
    and "\<forall>r\<in>set rs. ''__name__'' \<in> fst ` set (fst r)"
  shows "\<exists>cols rows.
      display_table (result_set rs) = Inr (''Metric'' # cols @ [''Value''], rows) \<and>
      cols = sorted_list_of_set ((\<Union>r\<in>set rs. fst ` set (fst r)) - {''__name__''}) \<and>
      length rows = length rs \<and>
      (\<forall>i<length rs. \<exists>name.
          map_of (fst (rs ! i)) ''__name__'' = Some name \<and>
          rows ! i =
            JStr name #
            map (\<lambda>k. JStr (case map_of (fst (rs ! i)) k of None \<Rightarrow> '''' | Some x \<Rightarrow> x)) cols @
            [JStr (snd (snd (rs ! i)))])"
proof -
  define cols where
    "cols = sorted_list_of_set ((\<Union>r\<in>set rs. fst ` set (fst r)) - {''__name__''})"
  define row :: "(string \<times> string) list \<times> json \<times> string \<Rightarrow> json list" where
    "row = (\<lambda>r. JStr (the (map_of (fst r) ''__name__'')) #
        map (\<lambda>k. JStr (case map_of (fst r) k of None \<Rightarrow> '''' | Some x \<Rightarrow> x)) cols @
        [JStr (snd (snd r))])"
  from assms obtain r where "r \<in> set rs" "''__name__'' \<in> fst ` set (fst r)"
    by (cases rs) auto
  then have some: "''__name__'' \<in> (\<Union>r\<in>set rs. fst ` set (fst r))" by blast
  have named: "\<exists>name. map_of (fst r) ''__name__'' = Some name" if "r \<in> set rs" for r
    using assms(2) that by (cases "map_of (fst r) ''__name__''") (auto simp: map_of_eq_None_iff)
  then have all: "\<not> (\<exists>r\<in>set rs. map_of (fst r) ''__name__'' = None)"
    by fastforce
  have table: "display_table (result_set rs) = Inr (''Metric'' # cols @ [''Value''], map row rs)"
    using some all by (simp add: display_table_result_set cols_def row_def)
  have "\<exists>name. map_of (fst (rs ! i)) ''__name__'' = Some name \<and>
          map row rs ! i =
            JStr name #
            map (\<lambda>k. JStr (case map_of (fst (rs ! i)) k of None \<Rightarrow> '''' | Some x \<Rightarrow> x)) cols @
            [JStr (snd (snd (rs ! i)))]"
    if "i < length rs" for i
  proof -
    from that named obtain name where "map_of (fst (rs ! i)) ''__name__'' = Some name"
      using nth_mem by blast
    with that show ?thesis by (simp add: row_def)
  qed
  with table show ?thesis
    unfolding cols_def [symmetric]
    by (intro exI [of _ cols] exI [of _ "map row rs"]) simp
qed

section \<open>The completion provider on a list of names\<close>

lemma filter_res_names:
  "filter_res (\<lambda>metric. startswith metric text) (map JStr names) =
     Inr (map JStr (filter (prefix text) names))"
  by (induction names) (simp_all add: startswith_def)

lemma completer_metric_list:
  "completer (metric_list names) text state =
     py_index (map JStr (filter (prefix text) names)) state"
  by (simp add: completer_def metric_list_def py_iter_def filter_res_names)

lemma py_index_in_set: "py_index xs i = Inr x \<Longrightarrow> x \<in> set xs"
  by (auto simp: py_index_def split: if_splits)

section \<open>The client on a response\<close>

lemma getitem_str_missing:
  assumes "\<forall>kvs. j = JObj kvs \<longrightarrow> k \<notin> fst ` set kvs"
  shows "getitem_str j k = Inl KeyError \<or> getitem_str j k = Inl TypeError"
  using assms by (cases j) (auto simp: getitem_str_def map_of_eq_None_iff split: option.split)

lemma getitem_str_present:
  "map_of kvs k = Some v \<Longrightarrow> getitem_str (JObj kvs) k = Inr v"
  by (simp add: getitem_str_def)

lemma get_metrics_response:
  assumes "http (prometheus_url @ ''/label/__name__/values'') [] = Inr r"
  shows "get_metrics http =
     (case body_json r of None \<Rightarrow> Inl JSONDecodeError | Some j \<Rightarrow> getitem_str j ''data'')"
  using assms by (simp add: get_metrics_def response_json_def split: option.split)

lemma query_prometheus_response:
  assumes "http (prometheus_url @ ''/query'') [(''query'', q)] = Inr r"
  shows "query_prometheus http q =
     (case body_json r of
        None \<Rightarrow> Inl JSONDecodeError
      | Some j \<Rightarrow> py_bind (getitem_str j ''data'') (\<lambda>d. getitem_str d ''result''))"
  using assms by (simp add: query_prometheus_def response_json_def split: option.split)



section \<open>The claims\<close>

subsection \<open>C1: the empty result set\<close>

text \<open>
  C1 asks that, for the empty result set, \<^verbatim>\<open>display_table\<close> succeeds with exactly
  two header columns and no data row. The union over zero records is computed without
  error and is empty, so the header list is \<^verbatim>\<open>['Metric']\<close>; then
  \<^verbatim>\<open>headers.remove('__name__')\<close> finds nothing to remove and raises \<^verbatim>\<open>ValueError\<close>.
  No header list and no row reach \<^verbatim>\<open>tabulate\<close>.
\<close>

theorem display_table_empty_raises:
  "label_keys (JArr []) = Inr [] \<and> display_table (JArr []) = Inl ValueError"
  by (simp add: display_table_def label_keys_def py_iter_def sorted_union_def list_remove_def)

subsection \<open>C2: past the last match\<close>

text \<open>
  C2 asks that, for an index at or past the number of names that start with the prefix,
  the completion provider returns an explicit "no more completions" value
  (\<^verbatim>\<open>None\<close>, here \<^const>\<open>JNull\<close>). The lambda indexes the list of matches and nothing
  else: on the specification's list, prefix \<^verbatim>\<open>'up'\<close> has two matches and the request
  for index 2 raises \<^verbatim>\<open>IndexError\<close>.
\<close>

theorem completer_no_explicit_signal_counterexample:
  "completer (metric_list [''up'', ''up_time'', ''node_cpu_seconds_total'']) ''up'' 2 =
     Inl IndexError \<and>
   completer (metric_list [''up'', ''up_time'', ''node_cpu_seconds_total'']) ''up'' 2 \<noteq>
     Inr JNull"
  by (simp add: completer_metric_list py_index_def)

text \<open>
  C2 as the code has it: for every list of metric names, every prefix and every index at
  or past the number of matching names, the completion provider raises \<^verbatim>\<open>IndexError\<close>.
  It returns no value; the exception leaves the lambda for its caller, the line-editing
  library.
\<close>

theorem completer_exhausted_raises:
  assumes "int (length (filter (prefix text) names)) \<le> state"
  shows "completer (metric_list names) text state = Inl IndexError"
  using assms by (simp add: completer_metric_list py_index_def)

text \<open>A prefix that matches nothing is exhausted at the first request.\<close>

theorem completer_exhausted_raises_witness:
  "completer (metric_list [''up'', ''up_time'', ''node_cpu_seconds_total'']) ''xyz'' 0 =
     Inl IndexError \<and>
   filter (prefix ''xyz'') [''up'', ''up_time'', ''node_cpu_seconds_total''] = []"
proof -
  have none: "filter (prefix ''xyz'') [''up'', ''up_time'', ''node_cpu_seconds_total''] = []"
    by simp
  then have "int (length (filter (prefix ''xyz'')
      [''up'', ''up_time'', ''node_cpu_seconds_total''])) \<le> 0"
    by simp
  from completer_exhausted_raises [OF this] none show ?thesis by simp
qed

subsection \<open>C3: the header row\<close>

text \<open>
  C3: for every non-empty result set in which every record's label map has the key
  \<^verbatim>\<open>__name__\<close>, the headers handed to \<^verbatim>\<open>tabulate\<close> are \<^verbatim>\<open>'Metric'\<close> first, then the label
  keys of all records together, without \<^verbatim>\<open>__name__\<close>, each once and in ascending order
  (strings compared character by character, characters by their code), then \<^verbatim>\<open>'Value'\<close>
  last. The number of headers is 2 plus the number of distinct label keys other than
  \<^verbatim>\<open>__name__\<close>.
\<close>

theorem display_table_headers:
  assumes "rs \<noteq> []"
    and "\<forall>r\<in>set rs. ''__name__'' \<in> fst ` set (fst r)"
  shows "\<exists>cols rows.
      display_table (result_set rs) = Inr (''Metric'' # cols @ [''Value''], rows) \<and>
      set cols = (\<Union>r\<in>set rs. fst ` set (fst r)) - {''__name__''} \<and>
      sorted cols \<and> distinct cols \<and>
      length (''Metric'' # cols @ [''Value'']) =
        2 + card ((\<Union>r\<in>set rs. fst ` set (fst r)) - {''__name__''})"
proof -
  define K where "K = (\<Union>r\<in>set rs. fst ` set (fst r)) - {''__name__''}"
  have fin: "finite K" by (simp add: K_def)
  from assms obtain r where "r \<in> set rs" "''__name__'' \<in> fst ` set (fst r)"
    by (cases rs) auto
  then have some: "''__name__'' \<in> (\<Union>r\<in>set rs. fst ` set (fst r))" by blast
  have all: "\<not> (\<exists>r\<in>set rs. map_of (fst r) ''__name__'' = None)"
    using assms(2) by (simp add: map_of_eq_None_iff)
  obtain rows where
    "display_table (result_set rs) = Inr (''Metric'' # sorted_list_of_set K @ [''Value''], rows)"
    using some all by (simp add: display_table_result_set K_def)
  moreover have "set (sorted_list_of_set K) = K" "sorted (sorted_list_of_set K)"
    "distinct (sorted_list_of_set K)" "length (sorted_list_of_set K) = card K"
    using fin by simp_all
  ultimately show ?thesis
    unfolding K_def [symmetric] by (intro exI [of _ "sorted_list_of_set K"] exI [of _ rows]) simp
qed

text \<open>The record of the specification's end-to-end scenario, with its labels given out of
  order: the headers come out sorted, four of them for two labels.\<close>

theorem display_table_headers_witness:
  "display_table (result_set
      [([(''__name__'', ''up''), (''job'', ''prometheus''), (''instance'', ''localhost:9090'')],
        JInt 1700000000, ''1'')]) =
    Inr ([''Metric'', ''instance'', ''job'', ''Value''],
         [[JStr ''up'', JStr ''localhost:9090'', JStr ''prometheus'', JStr ''1'']]) \<and>
   length [''Metric'', ''instance'', ''job'', ''Value''] = 2 + card {''instance'', ''job''}"
proof -
  let ?rs = "[([(''__name__'', ''up''), (''job'', ''prometheus''),
                (''instance'', ''localhost:9090'')], JInt 1700000000, ''1'')]"
  have nonempty: "?rs \<noteq> []" by simp
  have named: "\<forall>r\<in>set ?rs. ''__name__'' \<in> fst ` set (fst r)" by simp
  note general = display_table_headers [OF nonempty named]
  have run: "display_table (result_set ?rs) =
    Inr ([''Metric'', ''instance'', ''job'', ''Value''],
         [[JStr ''up'', JStr ''localhost:9090'', JStr ''prometheus'', JStr ''1'']])"
    by code_simp
  have "card {''instance'', ''job''} = 2" by simp
  with general run show ?thesis by simp
qed

subsection \<open>C4: the rows\<close>

text \<open>
  C4 asks that, for every result set in which each record's label map has the key
  \<^verbatim>\<open>__name__\<close>, \<^verbatim>\<open>display_table\<close> emits one row per record, in the order received, with
  the metric name first, the label cells in the middle and the sample value last. The
  empty result set meets the condition on the records, so the claim asks for zero rows
  there. The code raises instead, at \<^verbatim>\<open>headers.remove('__name__')\<close>, before any row is
  built: the same missed case as under C1.
\<close>

theorem display_table_rows_empty_raises:
  "result_set [] = JArr [] \<and> display_table (result_set []) = Inl ValueError"
  by (simp add: display_table_result_set) (simp add: result_set_def)

subsection \<open>C5: the i-th match\<close>

text \<open>
  C5: for every list of metric names, every prefix and every index \<open>i\<close> below the number
  of matches, the completion provider returns the \<open>i\<close>-th name (from 0) among those of
  the list that start with the prefix, in the order of the list. The empty prefix matches
  every name. On \<^verbatim>\<open>["up", "up_time", "node_cpu_seconds_total"]\<close> with prefix \<^verbatim>\<open>"up"\<close> it
  returns \<^verbatim>\<open>"up"\<close> at index 0 and \<^verbatim>\<open>"up_time"\<close> at index 1.
\<close>

theorem completer_returns_ith_match:
  "(i < length (filter (prefix text) names) \<longrightarrow>
      completer (metric_list names) text (int i) =
        Inr (JStr (filter (prefix text) names ! i))) \<and>
   filter (prefix '''') names = names \<and>
   completer (metric_list [''up'', ''up_time'', ''node_cpu_seconds_total'']) ''up'' 0 =
     Inr (JStr ''up'') \<and>
   completer (metric_list [''up'', ''up_time'', ''node_cpu_seconds_total'']) ''up'' 1 =
     Inr (JStr ''up_time'')"
  by (simp add: completer_metric_list py_index_def)

text \<open>With the empty prefix, index 2 is the third name of the list.\<close>

theorem completer_returns_ith_match_witness:
  "completer (metric_list [''up'', ''up_time'', ''node_cpu_seconds_total'']) '''' 2 =
     Inr (JStr ''node_cpu_seconds_total'')"
  using completer_returns_ith_match
    [of 2 "''''" "[''up'', ''up_time'', ''node_cpu_seconds_total'']"]
  by simp

subsection \<open>C6: a failed metric-name fetch\<close>




subsection \<open>C7: decoding the responses\<close>

text \<open>
  C7: when the request is answered, \<^verbatim>\<open>get_metrics\<close> returns the \<^verbatim>\<open>data\<close> field of the
  decoded body, raises \<^verbatim>\<open>JSONDecodeError\<close> when the body is not valid JSON, and raises
  \<^verbatim>\<open>KeyError\<close> or \<^verbatim>\<open>TypeError\<close> when the decoded body has no \<^verbatim>\<open>data\<close> field (an object
  without the key, or a value that is not an object). \<^verbatim>\<open>query_prometheus\<close> returns
  \<^verbatim>\<open>data.result\<close> and fails in the same ways when the body is not valid JSON, when
  \<^verbatim>\<open>data\<close> is missing and when \<^verbatim>\<open>data\<close> has no \<^verbatim>\<open>result\<close> field.
\<close>

theorem client_decoding:
  assumes "http (prometheus_url @ ''/label/__name__/values'') [] = Inr r"
    and "http (prometheus_url @ ''/query'') [(''query'', q)] = Inr r'"
  shows
    "(\<forall>kvs d. body_json r = Some (JObj kvs) \<and> map_of kvs ''data'' = Some d \<longrightarrow>
        get_metrics http = Inr d) \<and>
     (body_json r = None \<longrightarrow> get_metrics http = Inl JSONDecodeError) \<and>
     (\<forall>j. body_json r = Some j \<and> (\<forall>kvs. j = JObj kvs \<longrightarrow> ''data'' \<notin> fst ` set kvs) \<longrightarrow>
        get_metrics http = Inl KeyError \<or> get_metrics http = Inl TypeError) \<and>
     (\<forall>kvs kvs' res. body_json r' = Some (JObj kvs) \<and> map_of kvs ''data'' = Some (JObj kvs') \<and>
        map_of kvs' ''result'' = Some res \<longrightarrow>
        query_prometheus http q = Inr res) \<and>
     (body_json r' = None \<longrightarrow> query_prometheus http q = Inl JSONDecodeError) \<and>
     (\<forall>j. body_json r' = Some j \<and> (\<forall>kvs. j = JObj kvs \<longrightarrow> ''data'' \<notin> fst ` set kvs) \<longrightarrow>
        query_prometheus http q = Inl KeyError \<or> query_prometheus http q = Inl TypeError) \<and>
     (\<forall>kvs d. body_json r' = Some (JObj kvs) \<and> map_of kvs ''data'' = Some d \<and>
        (\<forall>kvs'. d = JObj kvs' \<longrightarrow> ''result'' \<notin> fst ` set kvs') \<longrightarrow>
        query_prometheus http q = Inl KeyError \<or> query_prometheus http q = Inl TypeError)"
proof -
  note gm = get_metrics_response [of http r, OF assms(1)]
  note qp = query_prometheus_response [of http q r', OF assms(2)]
  have m1: "get_metrics http = Inr d"
    if "body_json r = Some (JObj kvs)" "map_of kvs ''data'' = Some d" for kvs d
    using that by (simp add: gm getitem_str_present)
  have m2: "get_metrics http = Inl JSONDecodeError" if "body_json r = None"
    using that by (simp add: gm)
  have m3: "get_metrics http = Inl KeyError \<or> get_metrics http = Inl TypeError"
    if "body_json r = Some j" "\<forall>kvs. j = JObj kvs \<longrightarrow> ''data'' \<notin> fst ` set kvs" for j
    using that getitem_str_missing [of j "''data''"] by (simp add: gm)
  have q1: "query_prometheus http q = Inr res"
    if "body_json r' = Some (JObj kvs)" "map_of kvs ''data'' = Some (JObj kvs')"
      "map_of kvs' ''result'' = Some res" for kvs kvs' res
    using that by (simp add: qp getitem_str_present)
  have q2: "query_prometheus http q = Inl JSONDecodeError" if "body_json r' = None"
    using that by (simp add: qp)
  have q3: "query_prometheus http q = Inl KeyError \<or> query_prometheus http q = Inl TypeError"
    if "body_json r' = Some j" "\<forall>kvs. j = JObj kvs \<longrightarrow> ''data'' \<notin> fst ` set kvs" for j
    using that getitem_str_missing [of j "''data''"] by (auto simp: qp)
  have q4: "query_prometheus http q = Inl KeyError \<or> query_prometheus http q = Inl TypeError"
    if "body_json r' = Some (JObj kvs)" "map_of kvs ''data'' = Some d"
      "\<forall>kvs'. d = JObj kvs' \<longrightarrow> ''result'' \<notin> fst ` set kvs'" for kvs d
    using that getitem_str_missing [of d "''result''"] by (simp add: qp getitem_str_present)
  show ?thesis
    using m1 m2 m3 q1 q2 q3 q4 by blast
qed

text \<open>A well-formed answer to the metric-name request (which, sent as the answer to a
  query, has no \<^verbatim>\<open>data.result\<close>), and an answer whose body is not JSON.\<close>

theorem client_decoding_witness:
  "get_metrics (\<lambda>url params. Inr \<lparr>status_code = 200,
      body_json = Some (JObj [(''status'', JStr ''success''),
                              (''data'', metric_list [''up''])])\<rparr>) =
     Inr (metric_list [''up'']) \<and>
   query_prometheus (\<lambda>url params. Inr \<lparr>status_code = 200,
      body_json = Some (JObj [(''status'', JStr ''success''),
                              (''data'', metric_list [''up''])])\<rparr>) ''up'' =
     Inl TypeError \<and>
   get_metrics (\<lambda>url params. Inr \<lparr>status_code = 200, body_json = None\<rparr>) =
     Inl JSONDecodeError \<and>
   query_prometheus (\<lambda>url params. Inr \<lparr>status_code = 200, body_json = None\<rparr>) ''up'' =
     Inl JSONDecodeError"
proof -
  let ?good = "\<lparr>status_code = 200,
      body_json = Some (JObj [(''status'', JStr ''success''),
                              (''data'', metric_list [''up''])])\<rparr>"
  let ?bad = "\<lparr>status_code = 200, body_json = None\<rparr>"
  let ?http = "\<lambda>(url :: string) (params :: (string \<times> string) list). Inr ?good :: py_error + response"
  let ?http' = "\<lambda>(url :: string) (params :: (string \<times> string) list). Inr ?bad :: py_error + response"
  have a: "?http (prometheus_url @ ''/label/__name__/values'') [] = Inr ?good"
    and b: "?http (prometheus_url @ ''/query'') [(''query'', ''up'')] = Inr ?good"
    and c: "?http' (prometheus_url @ ''/label/__name__/values'') [] = Inr ?bad"
    and d: "?http' (prometheus_url @ ''/query'') [(''query'', ''up'')] = Inr ?bad"
    by simp_all
  note good = client_decoding [of ?http ?good "''up''" ?good, OF a b]
  note bad = client_decoding [of ?http' ?bad "''up''" ?bad, OF c d]
  have "get_metrics ?http = Inr (metric_list [''up''])"
    using good by simp
  moreover have "query_prometheus ?http ''up'' = Inl TypeError"
    by (simp add: query_prometheus_def response_json_def getitem_str_def metric_list_def)
  moreover have "get_metrics ?http' = Inl JSONDecodeError"
    and "query_prometheus ?http' ''up'' = Inl JSONDecodeError"
    using bad by simp_all
  ultimately show ?thesis by simp
qed

subsection \<open>C8: the timestamps do not matter\<close>

text \<open>
  C8: two result sets that agree on every record's label map and sample value, and so
  differ at most in the first elements of the value pairs, give the same outcome of
  \<^verbatim>\<open>display_table\<close>: the same headers and rows, or the same exception.
\<close>

theorem display_table_ignores_timestamps:
  assumes "map (\<lambda>r. (fst r, snd (snd r))) rs = map (\<lambda>r. (fst r, snd (snd r))) rs'"
  shows "display_table (result_set rs) = display_table (result_set rs')"
proof -
  define proj :: "(string \<times> string) list \<times> json \<times> string \<Rightarrow> (string \<times> string) list \<times> string"
    where "proj = (\<lambda>r. (fst r, snd (snd r)))"
  define out where "out = (\<lambda>ps :: ((string \<times> string) list \<times> string) list.
     (if ''__name__'' \<notin> (\<Union>p\<in>set ps. fst ` set (fst p)) then Inl ValueError
      else if \<exists>p\<in>set ps. map_of (fst p) ''__name__'' = None then Inl KeyError
      else Inr (''Metric'' #
                sorted_list_of_set ((\<Union>p\<in>set ps. fst ` set (fst p)) - {''__name__''}) @
                [''Value''],
                map (\<lambda>p. JStr (the (map_of (fst p) ''__name__'')) #
                  map (\<lambda>k. JStr (case map_of (fst p) k of None \<Rightarrow> '''' | Some x \<Rightarrow> x))
                    (sorted_list_of_set ((\<Union>p\<in>set ps. fst ` set (fst p)) - {''__name__''})) @
                  [JStr (snd p)]) ps)))"
  have "display_table (result_set qs) = out (map proj qs)" for qs
    by (simp add: display_table_result_set out_def proj_def comp_def)
  with assms show ?thesis
    by (simp add: proj_def)
qed

theorem display_table_ignores_timestamps_witness:
  "display_table (result_set [([(''__name__'', ''up''), (''job'', ''a'')], JInt 1700000000, ''1'')]) =
   display_table (result_set [([(''__name__'', ''up''), (''job'', ''a'')], JFloat 7, ''1'')]) \<and>
   display_table (result_set [([(''__name__'', ''up''), (''job'', ''a'')], JInt 1700000000, ''1'')]) =
   Inr ([''Metric'', ''job'', ''Value''], [[JStr ''up'', JStr ''a'', JStr ''1'']])"
proof -
  let ?labels = "[(''__name__'', ''up''), (''job'', ''a'')]"
  have same: "map (\<lambda>r. (fst r, snd (snd r))) [(?labels, JInt 1700000000, ''1'')] =
      map (\<lambda>r. (fst r, snd (snd r))) [(?labels, JFloat 7, ''1'')]"
    by simp
  note general = display_table_ignores_timestamps [OF same]
  have run: "display_table (result_set [(?labels, JInt 1700000000, ''1'')]) =
      Inr ([''Metric'', ''job'', ''Value''], [[JStr ''up'', JStr ''a'', JStr ''1'']])"
    by code_simp
  from general run show ?thesis by simp
qed

subsection \<open>C9: records without a metric name\<close>

text \<open>
  C9: for a non-empty result set in which some record's label map lacks the key
  \<^verbatim>\<open>__name__\<close>, \<^verbatim>\<open>display_table\<close> raises and hands nothing to \<^verbatim>\<open>tabulate\<close>. When no record
  has the key, \<^verbatim>\<open>headers.remove('__name__')\<close> raises \<^verbatim>\<open>ValueError\<close>; when some record has
  it, the headers are built and \<^verbatim>\<open>result['metric']['__name__']\<close> raises \<^verbatim>\<open>KeyError\<close> at the
  first record without it. Decoding does not look at the records: \<^verbatim>\<open>query_prometheus\<close>
  returns such a result set as it is.
\<close>

theorem display_table_missing_name_raises:
  assumes "rs \<noteq> []"
    and "\<exists>r\<in>set rs. ''__name__'' \<notin> fst ` set (fst r)"
  shows "display_table (result_set rs) =
      (if \<forall>r\<in>set rs. ''__name__'' \<notin> fst ` set (fst r) then Inl ValueError else Inl KeyError) \<and>
    query_prometheus
      (\<lambda>url params. Inr \<lparr>status_code = 200,
         body_json = Some (JObj [(''data'', JObj [(''result'', result_set rs)])])\<rparr>) q =
      Inr (result_set rs)"
proof -
  have "\<exists>r\<in>set rs. map_of (fst r) ''__name__'' = None"
    using assms(2) by (simp add: map_of_eq_None_iff)
  then have "display_table (result_set rs) =
      (if \<forall>r\<in>set rs. ''__name__'' \<notin> fst ` set (fst r) then Inl ValueError else Inl KeyError)"
    by (simp add: display_table_result_set)
  moreover have "query_prometheus
      (\<lambda>url params. Inr \<lparr>status_code = 200,
         body_json = Some (JObj [(''data'', JObj [(''result'', result_set rs)])])\<rparr>) q =
      Inr (result_set rs)"
    by (simp add: query_prometheus_def response_json_def getitem_str_def)
  ultimately show ?thesis by simp
qed

theorem display_table_missing_name_raises_witness:
  "display_table (result_set [([(''job'', ''a'')], JInt 1, ''1'')]) = Inl ValueError \<and>
   display_table (result_set
     [([(''__name__'', ''up'')], JInt 1, ''1''), ([(''job'', ''a'')], JInt 1, ''1'')]) =
     Inl KeyError"
proof -
  let ?none = "[([(''job'', ''a'')], JInt 1, ''1'')]"
  let ?some = "[([(''__name__'', ''up'')], JInt 1, ''1''), ([(''job'', ''a'')], JInt 1, ''1'')]"
  have n1: "?none \<noteq> []" and n2: "?some \<noteq> []" by simp_all
  have m1: "\<exists>r\<in>set ?none. ''__name__'' \<notin> fst ` set (fst r)" by simp
  have m2: "\<exists>r\<in>set ?some. ''__name__'' \<notin> fst ` set (fst r)" by simp
  from display_table_missing_name_raises [OF n1 m1] display_table_missing_name_raises [OF n2 m2]
  show ?thesis by simp
qed

subsection \<open>C10: matching is case-sensitive\<close>

text \<open>
  C10: a metric name that differs from the prefix at some position within the prefix's
  length is never returned by the completion provider, at any index and whatever the
  list holds. Characters are compared as they are, so a letter in the other case is a
  different character: a name that differs from the prefix only in letter case is never
  offered.
\<close>

theorem completer_case_sensitive:
  assumes "k < length text" and "k < length name" and "name ! k \<noteq> text ! k"
  shows "completer (metric_list names) text state \<noteq> Inr (JStr name)"
proof
  assume "completer (metric_list names) text state = Inr (JStr name)"
  then have "py_index (map JStr (filter (prefix text) names)) state = Inr (JStr name)"
    by (simp only: completer_metric_list)
  then have "JStr name \<in> set (map JStr (filter (prefix text) names))"
    by (rule py_index_in_set)
  then have "prefix text name" by auto
  then obtain rest where "name = text @ rest" by (auto simp: prefix_def)
  with assms(1) have "name ! k = text ! k" by (simp add: nth_append)
  with assms(3) show False by simp
qed

text \<open>With \<^verbatim>\<open>'Up'\<close> and \<^verbatim>\<open>'up'\<close> in the list, the prefix \<^verbatim>\<open>'up'\<close> gets \<^verbatim>\<open>'up'\<close> and never
  \<^verbatim>\<open>'Up'\<close>.\<close>

theorem completer_case_sensitive_witness:
  "completer (metric_list [''Up'', ''up'']) ''up'' 0 = Inr (JStr ''up'') \<and>
   completer (metric_list [''Up'', ''up'']) ''up'' 0 \<noteq> Inr (JStr ''Up'') \<and>
   completer (metric_list [''Up'', ''up'']) ''up'' 1 \<noteq> Inr (JStr ''Up'')"
proof -
  have pos: "(0::nat) < length ''up''" "(0::nat) < length ''Up''" by simp_all
  have differ: "''Up'' ! 0 \<noteq> ''up'' ! 0" by simp
  note general = completer_case_sensitive [OF pos differ, of "[''Up'', ''up'']"]
  have run: "completer (metric_list [''Up'', ''up'']) ''up'' 0 = Inr (JStr ''up'')"
    by (simp add: completer_metric_list py_index_def)
  from general [of 0] general [of 1] run show ?thesis by simp
qed

end
